theory Spec2Isabelle
  imports Main "HOL-Library.Word"
begin

section \<open>Python values used by \<open>blacksheep/server/templating.py\<close>\<close>

text \<open>
  A Python \<open>str\<close> is a sequence of Unicode code points, so it is a list of naturals
  here (one element per code point, as \<open>len\<close> counts them). A \<open>bytes\<close> value is a
  list of 8-bit words. \<open>lit\<close> and \<open>blit\<close> read the ASCII literals of the source.
\<close>

type_synonym str = "nat list"
type_synonym bytes = "8 word list"

definition lit :: "string \<Rightarrow> str" where
  "lit cs = map of_char cs"

definition blit :: "string \<Rightarrow> bytes" where
  "blit cs = map of_char cs"

text \<open>\<open>s.endswith(suffix)\<close>: the last \<open>len(suffix)\<close> code points of \<open>s\<close> are \<open>suffix\<close>.\<close>

definition endswith :: "str \<Rightarrow> str \<Rightarrow> bool" where
  "endswith s sfx =
     (length sfx \<le> length s \<and> drop (length s - length sfx) s = sfx)"

text \<open>
  The exceptions that can travel through this module: the one \<open>str.encode\<close> raises
  in \<open>get_response\<close>, the one a call raises when it gives a parameter twice, and those
  of the template engine. \<open>MultipleValues f p\<close> is Python's
  \<open>TypeError: f() got multiple values for argument 'p'\<close>.
\<close>

datatype exn =
    UnicodeEncodeError nat
  | MultipleValues str str
  | TemplateNotFound str
  | TemplateSyntaxError str
  | UndefinedError str
  | TypeError str
  | RuntimeError str

text \<open>
  Binding the arguments of a call \<open>f(p1, ..., pn, *args, **kwargs)\<close> whose first
  parameters \<open>p1, ..., pn\<close> are given by position: the remaining positional arguments
  go to \<open>args\<close> and the keywords to \<open>kwargs\<close>, unless a keyword names one of
  \<open>p1, ..., pn\<close>. That parameter has its value already, and the call raises
  \<open>TypeError\<close> for the first such keyword, before the body of \<open>f\<close> runs. The keyword
  arguments of a call are a list of (name, value) pairs in the order of the call.
\<close>

definition given_twice :: "str list \<Rightarrow> (str \<times> 'v) list \<Rightarrow> str option" where
  "given_twice params kwargs = find (\<lambda>k. k \<in> set params) (map fst kwargs)"

definition bind_arguments :: "str \<Rightarrow> str list \<Rightarrow> (str \<times> 'v) list \<Rightarrow> exn option" where
  "bind_arguments f params kwargs =
     (case given_twice params kwargs of
        None \<Rightarrow> None
      | Some k \<Rightarrow> Some (MultipleValues f k))"

section \<open>\<open>template_name\<close> (lines 7-11)\<close>

definition template_name :: "str \<Rightarrow> str" where
  "template_name name =
     (if \<not> endswith name (lit ''.html'') then name @ lit ''.html'' else name)"

text \<open>
  The decorator \<open>@lru_cache(1200)\<close> of line 7. The cache is a list of (argument, result)
  pairs, most recently used first. A hit returns the stored result and moves the entry to
  the front; a miss calls the function, stores the result in front and drops the least
  recently used entry once more than \<open>maxsize\<close> are held.
\<close>

type_synonym ('k, 'v) lru = "('k \<times> 'v) list"

definition lru_cache :: "nat \<Rightarrow> ('k \<Rightarrow> 'v) \<Rightarrow> ('k, 'v) lru \<Rightarrow> 'k \<Rightarrow> 'v \<times> ('k, 'v) lru" where
  "lru_cache maxsize f cache k =
     (case map_of cache k of
        Some v \<Rightarrow> (v, (k, v) # filter (\<lambda>kv. fst kv \<noteq> k) cache)
      | None \<Rightarrow> (let v = f k in (v, take maxsize ((k, v) # cache))))"

definition template_name_cached :: "(str, str) lru \<Rightarrow> str \<Rightarrow> str \<times> (str, str) lru" where
  "template_name_cached cache name = lru_cache 1200 template_name cache name"

text \<open>Every entry of the cache is a result of the function it decorates.\<close>

definition cache_of :: "('k \<Rightarrow> 'v) \<Rightarrow> ('k, 'v) lru \<Rightarrow> bool" where
  "cache_of f cache = list_all (\<lambda>kv. snd kv = f (fst kv)) cache"

section \<open>\<open>get_response\<close> (lines 14-17)\<close>

text \<open>
  \<open>html.encode('utf8')\<close> with the default error handler \<open>strict\<close>: one to four bytes
  per code point, and \<open>UnicodeEncodeError\<close> at the first surrogate (U+D800..U+DFFF),
  carrying its position.
\<close>

definition is_surrogate :: "nat \<Rightarrow> bool" where
  "is_surrogate c = (0xD800 \<le> c \<and> c \<le> 0xDFFF)"

definition utf8_char :: "nat \<Rightarrow> bytes" where
  "utf8_char c =
     (if c < 0x80 then [of_nat c]
      else if c < 0x800 then
        [of_nat (0xC0 + c div 0x40), of_nat (0x80 + c mod 0x40)]
      else if c < 0x10000 then
        [of_nat (0xE0 + c div 0x1000), of_nat (0x80 + c div 0x40 mod 0x40),
         of_nat (0x80 + c mod 0x40)]
      else
        [of_nat (0xF0 + c div 0x40000), of_nat (0x80 + c div 0x1000 mod 0x40),
         of_nat (0x80 + c div 0x40 mod 0x40), of_nat (0x80 + c mod 0x40)])"

fun encode_from :: "nat \<Rightarrow> str \<Rightarrow> exn + bytes" where
  "encode_from i [] = Inr []"
| "encode_from i (c # cs) =
     (if is_surrogate c then Inl (UnicodeEncodeError i)
      else (case encode_from (Suc i) cs of
              Inl e \<Rightarrow> Inl e
            | Inr bs \<Rightarrow> Inr (utf8_char c @ bs)))"

definition encode_utf8 :: "str \<Rightarrow> exn + bytes" where
  "encode_utf8 s = encode_from 0 s"

text \<open>
  The classes \<open>Content\<close> and \<open>Response\<close> of the \<open>blacksheep\<close> package, as far as this
  module uses them: \<open>Content(type, data)\<close>, \<open>Response(status, headers)\<close> with no
  content yet, and \<open>with_content\<close>, which attaches a content and gives the response back.
\<close>

record py_content =
  content_type :: bytes
  body :: bytes

record py_response =
  status :: int
  headers :: "(bytes \<times> bytes) list"
  content :: "py_content option"

definition Content :: "bytes \<Rightarrow> bytes \<Rightarrow> py_content" where
  "Content t d = \<lparr>content_type = t, body = d\<rparr>"

definition Response :: "int \<Rightarrow> (bytes \<times> bytes) list \<Rightarrow> py_response" where
  "Response st hs = \<lparr>status = st, headers = hs, content = None\<rparr>"

definition with_content :: "py_response \<Rightarrow> py_content \<Rightarrow> py_response" where
  "with_content r c = r\<lparr>content := Some c\<rparr>"

definition get_response :: "str \<Rightarrow> exn + py_response" where
  "get_response html =
     (case encode_utf8 html of
        Inl e \<Rightarrow> Inl e
      | Inr data \<Rightarrow>
          Inr (with_content
                 (Response 200 [(blit ''Cache-Control'', blit ''no-cache'')])
                 (Content (blit ''text/html; charset=utf-8'') data)))"

section \<open>The template engine and coroutines\<close>

text \<open>
  A coroutine object, as awaiting sees it: it returns a value, raises, or suspends and
  goes on later. \<open>await\<close> passes the suspensions of the awaited coroutine through and
  continues with its value; an exception of the awaited coroutine is raised at the
  \<open>await\<close>.
\<close>

datatype 'a coro = Return 'a | Raise exn | Suspend "'a coro"

fun await :: "'a coro \<Rightarrow> ('a \<Rightarrow> 'b coro) \<Rightarrow> 'b coro" where
  "await (Return x) k = k x"
| "await (Raise e) k = Raise e"
| "await (Suspend c) k = Suspend (await c k)"

fun suspensions :: "'a coro \<Rightarrow> nat" where
  "suspensions (Return x) = 0"
| "suspensions (Raise e) = 0"
| "suspensions (Suspend c) = Suc (suspensions c)"

text \<open>The result of a plain call, as a coroutine that ends at once.\<close>

definition finished :: "exn + 'a \<Rightarrow> 'a coro" where
  "finished r = (case r of Inl e \<Rightarrow> Raise e | Inr x \<Rightarrow> Return x)"

text \<open>
  Objects live in a heap and are named by their addresses, since the registry and the
  environment's globals hold references: \<open>apps\<close> and \<open>envs\<close> give the object at an
  address, and \<open>next_env\<close> is the address the next \<open>Environment(...)\<close> gets.
\<close>

datatype autoescape_rule = select_autoescape "str list"

datatype global_value = AppObj nat | EngineObj nat

record 'l environment =
  env_loader :: 'l
  env_autoescape :: autoescape_rule
  env_auto_reload :: bool
  env_enable_async :: bool
  env_globals :: "str \<rightharpoonup> global_value"

record application =
  debug :: bool
  services :: "str \<rightharpoonup> nat"

record 'l heap =
  apps :: "nat \<Rightarrow> application"
  envs :: "nat \<Rightarrow> 'l environment"
  next_env :: nat

text \<open>
  \<open>run_until_complete\<close> drives a coroutine to its end, in a heap, and gives its outcome
  and the heap afterwards. No other task runs in between.
\<close>

fun run_until_complete :: "'l heap \<Rightarrow> 'a coro \<Rightarrow> (exn + 'a) \<times> 'l heap" where
  "run_until_complete h (Return x) = (Inr x, h)"
| "run_until_complete h (Raise e) = (Inl e, h)"
| "run_until_complete h (Suspend c) = run_until_complete h c"

text \<open>
  The template engine (jinja2) is a parameter: the globals a fresh environment starts
  with, \<open>env.get_template(name)\<close>, \<open>template.render(*args, **kwargs)\<close> and
  \<open>template.render_async(*args, **kwargs)\<close>. The positional arguments are a list, the
  keyword arguments a list of pairs.
\<close>

record ('l, 't, 'v) engine =
  default_namespace :: "str \<rightharpoonup> global_value"
  get_template :: "'l environment \<Rightarrow> str \<Rightarrow> exn + 't"
  render :: "'t \<Rightarrow> 'v list \<Rightarrow> (str \<times> 'v) list \<Rightarrow> exn + str"
  render_async :: "'t \<Rightarrow> 'v list \<Rightarrow> (str \<times> 'v) list \<Rightarrow> str coro"

definition Environment ::
  "('l, 't, 'v) engine \<Rightarrow> 'l \<Rightarrow> autoescape_rule \<Rightarrow> bool \<Rightarrow> bool \<Rightarrow> 'l environment" where
  "Environment eng loader autoescape auto_reload enable_async =
     \<lparr>env_loader = loader, env_autoescape = autoescape, env_auto_reload = auto_reload,
      env_enable_async = enable_async, env_globals = default_namespace eng\<rparr>"

section \<open>\<open>render_template\<close> and \<open>render_template_async\<close> (lines 20-25)\<close>

text \<open>
  Both take the template as their first parameter, named \<open>template\<close>, and the views
  pass their own \<open>**kwargs\<close> on: a keyword \<open>template\<close> makes the call raise
  \<open>TypeError\<close>, and the engine is not reached. A call of the \<open>async def\<close> binds its
  arguments at once and gives the coroutine object only when that succeeds.
\<close>

definition render_template ::
  "('l, 't, 'v) engine \<Rightarrow> 't \<Rightarrow> 'v list \<Rightarrow> (str \<times> 'v) list \<Rightarrow> exn + str" where
  "render_template eng template args kwargs =
     (case bind_arguments (lit ''render_template'') [lit ''template''] kwargs of
        Some e \<Rightarrow> Inl e
      | None \<Rightarrow> render eng template args kwargs)"

definition render_template_async ::
  "('l, 't, 'v) engine \<Rightarrow> 't \<Rightarrow> 'v list \<Rightarrow> (str \<times> 'v) list \<Rightarrow> exn + str coro" where
  "render_template_async eng template args kwargs =
     (case bind_arguments (lit ''render_template_async'') [lit ''template''] kwargs of
        Some e \<Rightarrow> Inl e
      | None \<Rightarrow> Inr (await (render_async eng template args kwargs) Return))"

section \<open>The service registry\<close>

text \<open>
  Modelled from the spec: the class \<open>Application\<close> of \<open>blacksheep.server\<close> and the type
  of its attribute \<open>services\<close> are not among the sources. The spec gives the registry as
  "a mapping-like object supporting get-or-absent lookup and assignment by string key":
  \<open>services[key]\<close> is the stored object, or \<open>None\<close> for a key that is absent, and
  \<open>services[key] = obj\<close> stores \<open>obj\<close> under \<open>key\<close>. The entries are references to
  environment objects, the only entries this module reads or writes.
\<close>

definition services_getitem :: "(str \<rightharpoonup> nat) \<Rightarrow> str \<Rightarrow> nat option" where
  "services_getitem svc key = svc key"

definition services_setitem :: "(str \<rightharpoonup> nat) \<Rightarrow> str \<Rightarrow> nat \<Rightarrow> (str \<rightharpoonup> nat)" where
  "services_setitem svc key obj = svc(key \<mapsto> obj)"

text \<open>\<open>app.services[key] = obj\<close> on the application object at address \<open>app\<close>.\<close>

definition set_service :: "'l heap \<Rightarrow> nat \<Rightarrow> str \<Rightarrow> nat \<Rightarrow> 'l heap" where
  "set_service h app key obj =
     h\<lparr>apps := (apps h)
          (app := (apps h app)\<lparr>services := services_setitem (services (apps h app)) key obj\<rparr>)\<rparr>"

text \<open>\<open>env.globals[key] = v\<close> on the environment object at address \<open>env\<close>.\<close>

definition set_global :: "'l heap \<Rightarrow> nat \<Rightarrow> str \<Rightarrow> global_value \<Rightarrow> 'l heap" where
  "set_global h env key v =
     h\<lparr>envs := (envs h)
          (env := (envs h env)\<lparr>env_globals := (env_globals (envs h env))(key \<mapsto> v)\<rparr>)\<rparr>"

text \<open>\<open>Environment(...)\<close>: a new object at the next free address.\<close>

definition new_env :: "'l heap \<Rightarrow> 'l environment \<Rightarrow> nat \<times> 'l heap" where
  "new_env h e = (next_env h, h\<lparr>envs := (envs h)(next_env h := e), next_env := Suc (next_env h)\<rparr>)"

section \<open>\<open>use_templates\<close> and the views (lines 28-65)\<close>

text \<open>
  The two functions \<open>use_templates\<close> returns are closures over the variable \<open>env\<close>:
  \<open>SyncView env\<close> is \<open>sync_view\<close> and \<open>AsyncView env\<close> is \<open>async_view\<close>, each with the
  address of the environment it holds. Their parameter \<open>name\<close> is given by position.
  A view returns its outcome and the heap after the call; a coroutine reads the heap it
  was created in.
\<close>

datatype view_function = SyncView nat | AsyncView nat

fun bound_env :: "view_function \<Rightarrow> nat" where
  "bound_env (SyncView env) = env"
| "bound_env (AsyncView env) = env"

definition sync_view ::
  "('l, 't, 'v) engine \<Rightarrow> 'l heap \<Rightarrow> nat \<Rightarrow> str \<Rightarrow> 'v list \<Rightarrow> (str \<times> 'v) list \<Rightarrow>
   (exn + py_response) \<times> 'l heap" where
  "sync_view eng h env name args kwargs =
     (case bind_arguments (lit ''sync_view'') [lit ''name''] kwargs of
        Some e \<Rightarrow> Inl e
      | None \<Rightarrow>
          (case get_template eng (envs h env) (template_name name) of
             Inl e \<Rightarrow> Inl e
           | Inr t \<Rightarrow>
               (case render_template eng t args kwargs of
                  Inl e \<Rightarrow> Inl e
                | Inr html \<Rightarrow> get_response html)),
      h)"

definition async_view ::
  "('l, 't, 'v) engine \<Rightarrow> 'l heap \<Rightarrow> nat \<Rightarrow> str \<Rightarrow> 'v list \<Rightarrow> (str \<times> 'v) list \<Rightarrow>
   (exn + py_response coro) \<times> 'l heap" where
  "async_view eng h env name args kwargs =
     (case bind_arguments (lit ''async_view'') [lit ''name''] kwargs of
        Some e \<Rightarrow> Inl e
      | None \<Rightarrow>
          Inr (case get_template eng (envs h env) (template_name name) of
                 Inl e \<Rightarrow> Raise e
               | Inr t \<Rightarrow>
                   (case render_template_async eng t args kwargs of
                      Inl e \<Rightarrow> Raise e
                    | Inr c \<Rightarrow> await c (\<lambda>html. finished (get_response html)))),
      h)"

definition use_templates ::
  "('l, 't, 'v) engine \<Rightarrow> 'l heap \<Rightarrow> nat \<Rightarrow> 'l \<Rightarrow> bool \<Rightarrow> view_function \<times> 'l heap" where
  "use_templates eng h app loader enable_async =
     (let (env, h') =
        (case services_getitem (services (apps h app)) (lit ''jinja_environment'') of
           Some env \<Rightarrow> (env, h)
         | None \<Rightarrow>
             (let (env, h1) =
                    new_env h
                      (Environment eng loader (select_autoescape [lit ''html'', lit ''xml''])
                         (debug (apps h app)) enable_async);
                  h2 = set_service h1 app (lit ''jinja_environment'') env;
                  h3 = set_service h2 app (lit ''jinja'') env;
                  h4 = set_global h3 env (lit ''app'') (AppObj app)
              in (env, h4)))
      in (if enable_async then AsyncView env else SyncView env, h'))"

text \<open>
  \<open>view\<close> and \<open>view_async\<close>, with \<open>jinja_environment\<close> and \<open>name\<close> given by
  position.
\<close>

definition view ::
  "('l, 't, 'v) engine \<Rightarrow> 'l heap \<Rightarrow> nat \<Rightarrow> str \<Rightarrow> 'v list \<Rightarrow> (str \<times> 'v) list \<Rightarrow>
   (exn + py_response) \<times> 'l heap" where
  "view eng h jinja_environment name args kwargs =
     (case bind_arguments (lit ''view'') [lit ''jinja_environment'', lit ''name''] kwargs of
        Some e \<Rightarrow> Inl e
      | None \<Rightarrow>
          (case get_template eng (envs h jinja_environment) (template_name name) of
             Inl e \<Rightarrow> Inl e
           | Inr t \<Rightarrow>
               (case render_template eng t args kwargs of
                  Inl e \<Rightarrow> Inl e
                | Inr html \<Rightarrow> get_response html)),
      h)"

definition view_async ::
  "('l, 't, 'v) engine \<Rightarrow> 'l heap \<Rightarrow> nat \<Rightarrow> str \<Rightarrow> 'v list \<Rightarrow> (str \<times> 'v) list \<Rightarrow>
   (exn + py_response coro) \<times> 'l heap" where
  "view_async eng h jinja_environment name args kwargs =
     (case bind_arguments (lit ''view_async'') [lit ''jinja_environment'', lit ''name''] kwargs of
        Some e \<Rightarrow> Inl e
      | None \<Rightarrow>
          Inr (case get_template eng (envs h jinja_environment) (template_name name) of
                 Inl e \<Rightarrow> Raise e
               | Inr t \<Rightarrow>
                   (case render_template_async eng t args kwargs of
                      Inl e \<Rightarrow> Raise e
                    | Inr c \<Rightarrow> await c (\<lambda>html. finished (get_response html)))),
      h)"

text \<open>
  Calling a view function \<open>use_templates\<close> returned: the call raises, or the plain
  function returns a response, or the suspend-capable function returns a coroutine
  object.
\<close>

datatype call_result = Raised exn | Returned py_response | Coroutine "py_response coro"

fun call_view ::
  "('l, 't, 'v) engine \<Rightarrow> 'l heap \<Rightarrow> view_function \<Rightarrow> str \<Rightarrow> 'v list \<Rightarrow> (str \<times> 'v) list \<Rightarrow>
   call_result \<times> 'l heap" where
  "call_view eng h (SyncView env) name args kwargs =
     (case sync_view eng h env name args kwargs of
        (Inl e, h') \<Rightarrow> (Raised e, h')
      | (Inr r, h') \<Rightarrow> (Returned r, h'))"
| "call_view eng h (AsyncView env) name args kwargs =
     (case async_view eng h env name args kwargs of
        (Inl e, h') \<Rightarrow> (Raised e, h')
      | (Inr c, h') \<Rightarrow> (Coroutine c, h'))"

section \<open>A small engine and heap to run the definitions on\<close>

text \<open>
  One template, \<open>index.html\<close>; the compiled template is 1 in an environment with
  \<open>enable_async\<close> and 0 in one without. It renders to \<open><p>hi</p>\<close> when called without
  positional arguments and raises \<open>TypeError\<close> otherwise. Its asynchronous rendering
  needs an environment with \<open>enable_async\<close>; there it suspends once and then gives
  \<open><p>async</p>\<close>, or raises \<open>TypeError\<close> when positional arguments are given. The heap
  holds applications in debug mode with empty registries and no environment yet.
\<close>

definition demo_engine :: "(nat, nat, nat) engine" where
  "demo_engine =
     \<lparr>default_namespace = Map.empty,
      get_template = (\<lambda>env name.
         if name = lit ''index.html'' then Inr (if env_enable_async env then 1 else 0)
         else Inl (TemplateNotFound name)),
      render = (\<lambda>t args kwargs.
         if args = [] then Inr (lit ''<p>hi</p>'') else Inl (TypeError (lit ''render''))),
      render_async = (\<lambda>t args kwargs.
         if t = 0 then Raise (RuntimeError (lit ''async mode not enabled''))
         else if args = [] then Suspend (Return (lit ''<p>async</p>''))
         else Suspend (Raise (TypeError (lit ''render_async''))))\<rparr>"

definition demo_heap :: "nat heap" where
  "demo_heap =
     \<lparr>apps = (\<lambda>a. \<lparr>debug = True, services = Map.empty\<rparr>),
      envs = (\<lambda>r. Environment demo_engine 0 (select_autoescape []) False False),
      next_env = 0\<rparr>"

section \<open>Auxiliary facts\<close>

lemma endswith_iff: "endswith s sfx \<longleftrightarrow> (\<exists>p. s = p @ sfx)"
proof
  assume "endswith s sfx"
  then have "s = take (length s - length sfx) s @ sfx"
    by (metis append_take_drop_id endswith_def)
  then show "\<exists>p. s = p @ sfx" ..
next
  assume "\<exists>p. s = p @ sfx"
  then obtain p where "s = p @ sfx" ..
  then show "endswith s sfx" by (simp add: endswith_def)
qed

lemma endswith_append: "endswith (s @ sfx) sfx"
  by (simp add: endswith_def)

lemma cache_of_filter: "cache_of f cache \<Longrightarrow> cache_of f (filter P cache)"
  by (induction cache) (auto simp: cache_of_def)

lemma cache_of_take: "cache_of f cache \<Longrightarrow> cache_of f (take n cache)"
  by (auto simp: cache_of_def list_all_iff dest: in_set_takeD)

lemma cache_of_hit: "cache_of f cache \<Longrightarrow> map_of cache k = Some v \<Longrightarrow> v = f k"
proof -
  assume c: "cache_of f cache" and m: "map_of cache k = Some v"
  from m have "(k, v) \<in> set cache" by (rule map_of_SomeD)
  with c have "snd (k, v) = f (fst (k, v))" unfolding cache_of_def list_all_iff by blast
  then show "v = f k" by simp
qed

lemma lru_cache_correct:
  assumes "cache_of f cache"
  shows "fst (lru_cache n f cache k) = f k" and "cache_of f (snd (lru_cache n f cache k))"
proof -
  show "fst (lru_cache n f cache k) = f k"
    using assms by (auto simp: lru_cache_def Let_def dest: cache_of_hit split: option.splits)
  show "cache_of f (snd (lru_cache n f cache k))"
  proof (cases "map_of cache k")
    case None
    have "cache_of f ((k, f k) # cache)" using assms by (simp add: cache_of_def)
    then have "cache_of f (take n ((k, f k) # cache))" by (rule cache_of_take)
    with None show ?thesis by (simp add: lru_cache_def Let_def)
  next
    case (Some v)
    then have "v = f k" using assms by (rule cache_of_hit[rotated])
    moreover have "cache_of f (filter (\<lambda>kv. fst kv \<noteq> k) cache)" using assms by (rule cache_of_filter)
    ultimately show ?thesis using Some by (simp add: lru_cache_def cache_of_def)
  qed
qed

lemma lru_cache_size: "length cache \<le> n \<Longrightarrow> length (snd (lru_cache n f cache k)) \<le> n"
proof (cases "map_of cache k")
  case None
  then show ?thesis by (simp add: lru_cache_def Let_def)
next
  case (Some v)
  assume le: "length cache \<le> n"
  from Some have "(k, v) \<in> set cache" by (rule map_of_SomeD)
  then have "length (filter (\<lambda>kv. fst kv \<noteq> k) cache) < length cache"
    by (intro length_filter_less[of "(k, v)"]) auto
  with le Some show ?thesis by (simp add: lru_cache_def)
qed

lemma encode_from_ok:
  "\<forall>c\<in>set s. \<not> is_surrogate c \<Longrightarrow> encode_from i s = Inr (concat (map utf8_char s))"
  by (induction s arbitrary: i) auto

lemma encode_from_err:
  "\<exists>c\<in>set s. is_surrogate c \<Longrightarrow>
   encode_from i s = Inl (UnicodeEncodeError (i + length (takeWhile (\<lambda>c. \<not> is_surrogate c) s)))"
proof (induction s arbitrary: i)
  case Nil
  then show ?case by simp
next
  case (Cons a s)
  show ?case
  proof (cases "is_surrogate a")
    case True
    then show ?thesis by simp
  next
    case False
    with Cons.prems have "\<exists>c\<in>set s. is_surrogate c" by auto
    from Cons.IH[OF this, of "Suc i"] False show ?thesis by simp
  qed
qed

lemma await_Return: "await c Return = c"
  by (induction c) auto

lemma run_heap: "snd (run_until_complete h c) = h"
  by (induction c) auto

lemma run_await:
  "fst (run_until_complete h (await c k)) =
     (case fst (run_until_complete h c) of
        Inl e \<Rightarrow> Inl e
      | Inr x \<Rightarrow> fst (run_until_complete h (k x)))"
  by (induction c) auto

lemma run_finished: "fst (run_until_complete h (finished r)) = r"
  by (cases r) (auto simp: finished_def)

lemma run_await_finished:
  "run_until_complete h (await c (\<lambda>x. finished (f x))) =
     (case fst (run_until_complete h c) of Inl e \<Rightarrow> Inl e | Inr x \<Rightarrow> f x, h)"
  by (rule prod_eqI) (simp_all add: run_heap run_await run_finished cong: sum.case_cong)

lemma given_twice_Nil: "given_twice params [] = None"
  by (simp add: given_twice_def)

lemma given_twice_None_iff:
  "given_twice params kwargs = None \<longleftrightarrow> (\<forall>k\<in>fst ` set kwargs. k \<notin> set params)"
  by (auto simp: given_twice_def find_None_iff)

lemma given_twice_mono:
  "given_twice params kwargs = None \<Longrightarrow> set ps \<subseteq> set params \<Longrightarrow> given_twice ps kwargs = None"
  unfolding given_twice_None_iff by blast

lemma bind_arguments_None: "given_twice params kwargs = None \<Longrightarrow> bind_arguments f params kwargs = None"
  by (simp add: bind_arguments_def)

lemma suspensions_await_finished: "suspensions (await c (\<lambda>x. finished (f x))) = suspensions c"
  by (induction c) (auto simp: finished_def split: sum.splits)

lemma use_templates_present:
  "services (apps h app) (lit ''jinja_environment'') = Some env \<Longrightarrow>
   use_templates eng h app loader enable_async =
     (if enable_async then AsyncView env else SyncView env, h)"
  by (simp add: use_templates_def services_getitem_def)

lemma lit_keys_distinct: "lit ''jinja'' \<noteq> lit ''jinja_environment''"
  by (simp add: lit_def)

lemma use_templates_absent:
  assumes "services (apps h app) (lit ''jinja_environment'') = None"
  shows "use_templates eng h app loader enable_async =
     (if enable_async then AsyncView (next_env h) else SyncView (next_env h),
      \<lparr>apps = (apps h)(app := (apps h app)\<lparr>services :=
                (services (apps h app))(lit ''jinja_environment'' \<mapsto> next_env h,
                                          lit ''jinja'' \<mapsto> next_env h)\<rparr>),
       envs = (envs h)(next_env h :=
                \<lparr>env_loader = loader,
                 env_autoescape = select_autoescape [lit ''html'', lit ''xml''],
                 env_auto_reload = debug (apps h app),
                 env_enable_async = enable_async,
                 env_globals = (default_namespace eng)(lit ''app'' \<mapsto> AppObj app)\<rparr>),
       next_env = Suc (next_env h)\<rparr>)"
  using assms
  by (simp add: use_templates_def services_getitem_def services_setitem_def new_env_def
      set_service_def set_global_def Environment_def)

section \<open>Template names\<close>

text \<open>
  Claim C4. For every string that does not end in \<open>.html\<close>, \<open>template_name\<close> gives the
  string with \<open>.html\<close> appended once; for every string that ends in \<open>.html\<close> it gives
  the string itself. It is a total function on strings: there is no error result. "Ends
  in" is stated with an explicit prefix, not with the model's \<open>endswith\<close>.
\<close>

theorem template_name_appends_extension:
  "((\<nexists>p. name = p @ lit ''.html'') \<longrightarrow>
      template_name name = name @ lit ''.html'' \<and>
      length (template_name name) = length name + 5) \<and>
   ((\<exists>p. name = p @ lit ''.html'') \<longrightarrow> template_name name = name)"
  by (simp add: template_name_def endswith_iff) (simp add: lit_def)

theorem template_name_appends_extension_witness:
  "(\<nexists>p. lit ''index'' = p @ lit ''.html'') \<and>
   template_name (lit ''index'') = lit ''index'' @ lit ''.html'' \<and>
   length (template_name (lit ''index'')) = length (lit ''index'') + 5 \<and>
   (\<exists>p. lit ''about.html'' = p @ lit ''.html'') \<and>
   template_name (lit ''about.html'') = lit ''about.html''"
proof -
  have no: "\<nexists>p. lit ''index'' = p @ lit ''.html''"
    unfolding endswith_iff[symmetric] by (simp add: endswith_def lit_def)
  have yes: "\<exists>p. lit ''about.html'' = p @ lit ''.html''"
    unfolding endswith_iff[symmetric] by (simp add: endswith_def lit_def)
  from no yes template_name_appends_extension[of "lit ''index''"]
    template_name_appends_extension[of "lit ''about.html''"]
  show ?thesis by blast
qed

text \<open>
  Claim C9. Normalization is idempotent: for every string \<open>s\<close>,
  \<open>template_name (template_name s) = template_name s\<close>.
\<close>

theorem template_name_idempotent: "template_name (template_name s) = template_name s"
  by (simp add: template_name_def endswith_append)

text \<open>
  The decorated function: whatever the cache holds, as long as it was filled by the
  decorator itself, a call gives the result of the undecorated body, so the views below
  use \<open>template_name\<close> directly.
\<close>

lemma template_name_cached_correct:
  "cache_of template_name cache \<Longrightarrow>
   fst (template_name_cached cache name) = template_name name \<and>
   cache_of template_name (snd (template_name_cached cache name)) \<and>
   (length cache \<le> 1200 \<longrightarrow> length (snd (template_name_cached cache name)) \<le> 1200)"
  by (simp add: template_name_cached_def lru_cache_correct lru_cache_size)

lemma cache_of_empty: "cache_of f []"
  by (simp add: cache_of_def)

section \<open>Responses\<close>

text \<open>The encoder on the boundary code points of each length, and on ASCII text.\<close>

lemma utf8_char_samples:
  "utf8_char 0x7F = [0x7F] \<and>
   utf8_char 0xE9 = [0xC3, 0xA9] \<and>
   utf8_char 0x7FF = [0xDF, 0xBF] \<and>
   utf8_char 0x20AC = [0xE2, 0x82, 0xAC] \<and>
   utf8_char 0xFFFF = [0xEF, 0xBF, 0xBF] \<and>
   utf8_char 0x1F600 = [0xF0, 0x9F, 0x98, 0x80] \<and>
   utf8_char 0x10FFFF = [0xF4, 0x8F, 0xBF, 0xBF]"
  by (simp add: utf8_char_def)

lemma utf8_ascii:
  "\<forall>c\<in>set s. c < 0x80 \<Longrightarrow> concat (map utf8_char s) = map of_nat s"
  by (induction s) (auto simp: utf8_char_def)

lemma utf8_length:
  "length (utf8_char c) =
     (if c < 0x80 then 1 else if c < 0x800 then 2 else if c < 0x10000 then 3 else 4)"
  by (simp add: utf8_char_def)

lemma get_response_ok:
  assumes "\<forall>c\<in>set html. \<not> is_surrogate c"
  shows "get_response html =
     Inr \<lparr>status = 200, headers = [(blit ''Cache-Control'', blit ''no-cache'')],
          content = Some \<lparr>content_type = blit ''text/html; charset=utf-8'',
                           body = concat (map utf8_char html)\<rparr>\<rparr>"
  by (simp add: get_response_def encode_utf8_def encode_from_ok[OF assms]
      with_content_def Response_def Content_def)

lemma get_response_err:
  assumes "\<exists>c\<in>set html. is_surrogate c"
  shows "get_response html =
     Inl (UnicodeEncodeError (length (takeWhile (\<lambda>c. \<not> is_surrogate c) html)))"
  by (simp add: get_response_def encode_utf8_def encode_from_err[OF assms])

text \<open>
  Claim C3, as the spec states it: for every string input \<open>get_response\<close> succeeds. It
  does not on a string that holds a surrogate code point, such as the one-character
  string \<open>'\ud800'\<close>: \<open>html.encode('utf8')\<close> raises \<open>UnicodeEncodeError\<close> there, and no
  response is returned.
\<close>

theorem get_response_surrogate_raises:
  "get_response [0xD800] = Inl (UnicodeEncodeError 0)"
  by (simp add: get_response_def encode_utf8_def is_surrogate_def)

text \<open>
  Claim C3, amended. For every string input without a surrogate code point
  (U+D800..U+DFFF), \<open>get_response\<close> returns a response with status 200, the header list
  \<open>[(Cache-Control, no-cache)]\<close>, content type \<open>text/html; charset=utf-8\<close> and the UTF-8
  encoding of the input as body. On a string with a surrogate it raises
  \<open>UnicodeEncodeError\<close> at the position of the first one. When the template renders to
  \<open><p>hi</p>\<close>, \<open>view\<close> returns such a response, with the UTF-8 bytes of \<open><p>hi</p>\<close>
  as body, and leaves the heap as it is. "The template renders" says that the call of
  \<open>view\<close> reaches \<open>template.render\<close>: no keyword of the call is named
  \<open>jinja_environment\<close>, \<open>name\<close> or \<open>template\<close>, and the template is found.
\<close>

theorem get_response_utf8:
  "((\<forall>c\<in>set html. \<not> is_surrogate c) \<longrightarrow>
      get_response html =
        Inr \<lparr>status = 200, headers = [(blit ''Cache-Control'', blit ''no-cache'')],
             content = Some \<lparr>content_type = blit ''text/html; charset=utf-8'',
                              body = concat (map utf8_char html)\<rparr>\<rparr>) \<and>
   ((\<exists>c\<in>set html. is_surrogate c) \<longrightarrow>
      get_response html =
        Inl (UnicodeEncodeError (length (takeWhile (\<lambda>c. \<not> is_surrogate c) html)))) \<and>
   (given_twice [lit ''jinja_environment'', lit ''name'', lit ''template''] kwargs = None \<and>
    get_template eng (envs h env) (template_name name) = Inr t \<and>
    render eng t args kwargs = Inr (lit ''<p>hi</p>'') \<longrightarrow>
      view eng h env name args kwargs =
        (Inr \<lparr>status = 200, headers = [(blit ''Cache-Control'', blit ''no-cache'')],
              content = Some \<lparr>content_type = blit ''text/html; charset=utf-8'',
                               body = [0x3C, 0x70, 0x3E, 0x68, 0x69, 0x3C, 0x2F, 0x70, 0x3E]\<rparr>\<rparr>,
         h))"
proof (intro conjI impI)
  assume "\<forall>c\<in>set html. \<not> is_surrogate c"
  then show "get_response html =
        Inr \<lparr>status = 200, headers = [(blit ''Cache-Control'', blit ''no-cache'')],
             content = Some \<lparr>content_type = blit ''text/html; charset=utf-8'',
                              body = concat (map utf8_char html)\<rparr>\<rparr>"
    by (rule get_response_ok)
next
  assume "\<exists>c\<in>set html. is_surrogate c"
  then show "get_response html =
        Inl (UnicodeEncodeError (length (takeWhile (\<lambda>c. \<not> is_surrogate c) html)))"
    by (rule get_response_err)
next
  assume a: "given_twice [lit ''jinja_environment'', lit ''name'', lit ''template''] kwargs = None \<and>
    get_template eng (envs h env) (template_name name) = Inr t \<and>
    render eng t args kwargs = Inr (lit ''<p>hi</p>'')"
  then have g: "given_twice [lit ''jinja_environment'', lit ''name''] kwargs = None"
      "given_twice [lit ''template''] kwargs = None"
    by (auto elim: given_twice_mono)
  have ok: "\<forall>c\<in>set (lit ''<p>hi</p>''). \<not> is_surrogate c"
    by (simp add: lit_def is_surrogate_def)
  have enc: "concat (map utf8_char (lit ''<p>hi</p>'')) =
      [0x3C, 0x70, 0x3E, 0x68, 0x69, 0x3C, 0x2F, 0x70, 0x3E]"
    by (simp add: lit_def utf8_char_def)
  from a g show "view eng h env name args kwargs =
        (Inr \<lparr>status = 200, headers = [(blit ''Cache-Control'', blit ''no-cache'')],
              content = Some \<lparr>content_type = blit ''text/html; charset=utf-8'',
                               body = [0x3C, 0x70, 0x3E, 0x68, 0x69, 0x3C, 0x2F, 0x70, 0x3E]\<rparr>\<rparr>,
         h)"
    by (simp add: view_def render_template_def bind_arguments_None get_response_ok[OF ok] enc)
qed

theorem get_response_utf8_witness:
  "\<not> is_surrogate 0x3C \<and> \<not> is_surrogate 0xE9 \<and>
   \<not> is_surrogate 0x20AC \<and> \<not> is_surrogate 0x1F600 \<and>
   get_response [0x3C, 0xE9, 0x20AC, 0x1F600] =
     Inr \<lparr>status = 200, headers = [(blit ''Cache-Control'', blit ''no-cache'')],
          content = Some \<lparr>content_type = blit ''text/html; charset=utf-8'',
                           body = [0x3C, 0xC3, 0xA9, 0xE2, 0x82, 0xAC, 0xF0, 0x9F, 0x98, 0x80]\<rparr>\<rparr> \<and>
   (\<exists>c\<in>set [0x41, 0xDC00, 0x42]. is_surrogate c) \<and>
   get_response [0x41, 0xDC00, 0x42] = Inl (UnicodeEncodeError 1) \<and>
   given_twice [lit ''jinja_environment'', lit ''name'', lit ''template'']
     [(lit ''title'', 5::nat)] = None \<and>
   get_template demo_engine (envs demo_heap 0) (template_name (lit ''index'')) = Inr 0 \<and>
   render demo_engine 0 [] [(lit ''title'', 5)] = Inr (lit ''<p>hi</p>'') \<and>
   view demo_engine demo_heap 0 (lit ''index'') [] [(lit ''title'', 5)] =
     (Inr \<lparr>status = 200, headers = [(blit ''Cache-Control'', blit ''no-cache'')],
           content = Some \<lparr>content_type = blit ''text/html; charset=utf-8'',
                            body = [0x3C, 0x70, 0x3E, 0x68, 0x69, 0x3C, 0x2F, 0x70, 0x3E]\<rparr>\<rparr>,
      demo_heap)"
proof -
  have h1: "\<forall>c\<in>set [0x3C, 0xE9, 0x20AC, 0x1F600]. \<not> is_surrogate c"
    by (simp add: is_surrogate_def)
  have h2: "\<exists>c\<in>set [0x41, 0xDC00, 0x42]. is_surrogate c"
    by (simp add: is_surrogate_def)
  have h3: "get_template demo_engine (envs demo_heap 0) (template_name (lit ''index'')) = Inr 0"
    by (simp add: demo_engine_def demo_heap_def Environment_def template_name_def endswith_def
        lit_def)
  have h4: "render demo_engine 0 [] [(lit ''title'', 5)] = Inr (lit ''<p>hi</p>'')"
    by (simp add: demo_engine_def)
  have h5: "given_twice [lit ''jinja_environment'', lit ''name'', lit ''template'']
      [(lit ''title'', 5::nat)] = None"
    by (simp add: given_twice_def lit_def)
  have e: "concat (map utf8_char [0x3C, 0xE9, 0x20AC, 0x1F600]) =
      [0x3C, 0xC3, 0xA9, 0xE2, 0x82, 0xAC, 0xF0, 0x9F, 0x98, 0x80]"
    by (simp add: utf8_char_def)
  have p: "length (takeWhile (\<lambda>c. \<not> is_surrogate c) [0x41, 0xDC00, 0x42]) = 1"
    by (simp add: is_surrogate_def)
  note c = get_response_utf8[of "[0x3C, 0xE9, 0x20AC, 0x1F600]" "[]" demo_engine demo_heap 0 "[]" 0 "[]"]
  note d = get_response_utf8[of "[0x41, 0xDC00, 0x42]" "[]" demo_engine demo_heap 0 "[]" 0 "[]"]
  have c1: "get_response [0x3C, 0xE9, 0x20AC, 0x1F600] =
     Inr \<lparr>status = 200, headers = [(blit ''Cache-Control'', blit ''no-cache'')],
          content = Some \<lparr>content_type = blit ''text/html; charset=utf-8'',
                           body = [0x3C, 0xC3, 0xA9, 0xE2, 0x82, 0xAC, 0xF0, 0x9F, 0x98, 0x80]\<rparr>\<rparr>"
    using c [THEN conjunct1, THEN mp, OF h1] by (simp only: e)
  have c2: "get_response [0x41, 0xDC00, 0x42] = Inl (UnicodeEncodeError 1)"
    using d [THEN conjunct2, THEN conjunct1, THEN mp, OF h2] by (simp only: p)
  from get_response_utf8[of "[]" "[(lit ''title'', 5)]" demo_engine demo_heap 0 "lit ''index''" 0 "[]"]
    h3 h4 h5
  have c3: "view demo_engine demo_heap 0 (lit ''index'') [] [(lit ''title'', 5)] =
     (Inr \<lparr>status = 200, headers = [(blit ''Cache-Control'', blit ''no-cache'')],
           content = Some \<lparr>content_type = blit ''text/html; charset=utf-8'',
                            body = [0x3C, 0x70, 0x3E, 0x68, 0x69, 0x3C, 0x2F, 0x70, 0x3E]\<rparr>\<rparr>,
      demo_heap)"
    by blast
  have h0: "\<not> is_surrogate 0x3C \<and> \<not> is_surrogate 0xE9 \<and>
      \<not> is_surrogate 0x20AC \<and> \<not> is_surrogate 0x1F600"
    by (simp add: is_surrogate_def)
  from h0 h2 h3 h4 h5 c1 c2 c3 show ?thesis by blast
qed

section \<open>Provisioning the environment\<close>

text \<open>What \<open>use_templates\<close> leaves alone: other applications, other registry keys, the
  debug flag and every environment that existed before.\<close>

lemma use_templates_frame:
  assumes "use_templates eng h app loader enable_async = (v, h')"
  shows "(\<forall>a. a \<noteq> app \<longrightarrow> apps h' a = apps h a) \<and>
         debug (apps h' app) = debug (apps h app) \<and>
         (\<forall>k. k \<noteq> lit ''jinja_environment'' \<and> k \<noteq> lit ''jinja'' \<longrightarrow>
              services (apps h' app) k = services (apps h app) k) \<and>
         (\<forall>r. r \<noteq> next_env h \<longrightarrow> envs h' r = envs h r) \<and>
         next_env h \<le> next_env h'"
proof (cases "services (apps h app) (lit ''jinja_environment'')")
  case None
  from assms show ?thesis unfolding use_templates_absent[OF None] by auto
next
  case (Some env)
  from assms show ?thesis unfolding use_templates_present[OF Some] by auto
qed

text \<open>
  Claim C1. When the registry of the application holds nothing under
  \<open>jinja_environment\<close>, the lookup of line 29 gives \<open>None\<close> and does not raise, and
  \<open>use_templates\<close> constructs a new environment (at the next free address) with the given
  loader, autoescape for \<open>html\<close> and \<open>xml\<close>, \<open>auto_reload\<close> equal to the application's
  debug flag and \<open>enable_async\<close> equal to the flag argument. It stores that one object
  under both \<open>jinja_environment\<close> and \<open>jinja\<close>, and sets its global \<open>app\<close> to the
  application. The returned view is bound to the new environment.
\<close>

theorem use_templates_creates_environment:
  assumes "services (apps h app) (lit ''jinja_environment'') = None"
      and "use_templates eng h app loader enable_async = (v, h')"
  shows "services_getitem (services (apps h app)) (lit ''jinja_environment'') = None \<and>
         next_env h' = Suc (next_env h) \<and>
         env_loader (envs h' (next_env h)) = loader \<and>
         env_autoescape (envs h' (next_env h)) = select_autoescape [lit ''html'', lit ''xml''] \<and>
         env_auto_reload (envs h' (next_env h)) = debug (apps h app) \<and>
         env_enable_async (envs h' (next_env h)) = enable_async \<and>
         env_globals (envs h' (next_env h)) =
           (default_namespace eng)(lit ''app'' \<mapsto> AppObj app) \<and>
         services (apps h' app) (lit ''jinja_environment'') = Some (next_env h) \<and>
         services (apps h' app) (lit ''jinja'') = Some (next_env h) \<and>
         v = (if enable_async then AsyncView (next_env h) else SyncView (next_env h))"
  using assms(2) unfolding use_templates_absent[OF assms(1)]
  by (auto simp: services_getitem_def assms(1) lit_keys_distinct)

theorem use_templates_creates_environment_witness:
  "services (apps demo_heap 3) (lit ''jinja_environment'') = None \<and>
   next_env (snd (use_templates demo_engine demo_heap 3 7 True)) = 1 \<and>
   env_loader (envs (snd (use_templates demo_engine demo_heap 3 7 True)) 0) = 7 \<and>
   env_autoescape (envs (snd (use_templates demo_engine demo_heap 3 7 True)) 0) =
     select_autoescape [lit ''html'', lit ''xml''] \<and>
   env_auto_reload (envs (snd (use_templates demo_engine demo_heap 3 7 True)) 0) = True \<and>
   env_enable_async (envs (snd (use_templates demo_engine demo_heap 3 7 True)) 0) = True \<and>
   env_globals (envs (snd (use_templates demo_engine demo_heap 3 7 True)) 0) (lit ''app'') =
     Some (AppObj 3) \<and>
   services (apps (snd (use_templates demo_engine demo_heap 3 7 True)) 3)
     (lit ''jinja_environment'') = Some 0 \<and>
   services (apps (snd (use_templates demo_engine demo_heap 3 7 True)) 3) (lit ''jinja'') = Some 0 \<and>
   fst (use_templates demo_engine demo_heap 3 7 True) = AsyncView 0"
proof -
  have a: "services (apps demo_heap 3) (lit ''jinja_environment'') = None"
    by (simp add: demo_heap_def)
  have n: "next_env demo_heap = 0" and d: "debug (apps demo_heap 3) = True"
    by (simp_all add: demo_heap_def)
  have "use_templates demo_engine demo_heap 3 7 True =
      (fst (use_templates demo_engine demo_heap 3 7 True),
       snd (use_templates demo_engine demo_heap 3 7 True))"
    by simp
  from use_templates_creates_environment[OF a this] a show ?thesis
    unfolding n d by simp
qed

text \<open>
  Claim C2. Two calls of \<open>use_templates\<close> on one application with \<open>enable_async=False\<close>
  (whatever the loaders) both return a synchronous view function, over the same
  environment. The second call constructs nothing and assigns nothing: the heap after it
  is the heap before it, so the registry still holds, under both keys, the environment
  the first call found or created. When the registry was empty before the first call,
  that environment is the one the first call created; when it was not, the first call
  changes nothing either.
\<close>

theorem use_templates_twice_reuses:
  assumes "use_templates eng h app loader1 False = (v1, h1)"
      and "use_templates eng h1 app loader2 False = (v2, h2)"
  shows "\<exists>env. v1 = SyncView env \<and> v2 = SyncView env \<and>
           h2 = h1 \<and>
           services (apps h2 app) (lit ''jinja_environment'') = Some env \<and>
           (services (apps h app) (lit ''jinja_environment'') = None \<longrightarrow>
              env = next_env h \<and> next_env h2 = Suc (next_env h) \<and>
              services (apps h2 app) (lit ''jinja'') = Some env \<and>
              env_loader (envs h2 env) = loader1) \<and>
           (services (apps h app) (lit ''jinja_environment'') \<noteq> None \<longrightarrow> h1 = h)"
proof (cases "services (apps h app) (lit ''jinja_environment'')")
  case None
  from assms(1) have v1: "v1 = SyncView (next_env h)"
    and h1: "services (apps h1 app) (lit ''jinja_environment'') = Some (next_env h)"
    and j: "services (apps h1 app) (lit ''jinja'') = Some (next_env h)"
    and n: "next_env h1 = Suc (next_env h)"
    and l: "env_loader (envs h1 (next_env h)) = loader1"
    unfolding use_templates_absent[OF None] by (auto simp: lit_keys_distinct)
  from assms(2) have "v2 = SyncView (next_env h)" and "h2 = h1"
    unfolding use_templates_present[OF h1] by auto
  with v1 h1 j n l None show ?thesis by simp
next
  case (Some env)
  from assms(1) have v1: "v1 = SyncView env" and e: "h1 = h"
    unfolding use_templates_present[OF Some] by auto
  from assms(2) have "v2 = SyncView env" and "h2 = h1"
    unfolding e use_templates_present[OF Some] by auto
  with v1 e Some show ?thesis by simp
qed

theorem use_templates_twice_reuses_witness:
  "services (apps demo_heap 3) (lit ''jinja_environment'') = None \<and>
   fst (use_templates demo_engine demo_heap 3 7 False) = SyncView 0 \<and>
   fst (use_templates demo_engine (snd (use_templates demo_engine demo_heap 3 7 False)) 3 8 False) =
     SyncView 0 \<and>
   snd (use_templates demo_engine (snd (use_templates demo_engine demo_heap 3 7 False)) 3 8 False) =
     snd (use_templates demo_engine demo_heap 3 7 False) \<and>
   services (apps (snd (use_templates demo_engine demo_heap 3 7 False)) 3)
     (lit ''jinja_environment'') = Some 0 \<and>
   env_loader (envs (snd (use_templates demo_engine demo_heap 3 7 False)) 0) = 7"
proof -
  define h1 where "h1 = snd (use_templates demo_engine demo_heap 3 7 False)"
  define h2 where "h2 = snd (use_templates demo_engine h1 3 8 False)"
  have a: "services (apps demo_heap 3) (lit ''jinja_environment'') = None"
    by (simp add: demo_heap_def)
  have n: "next_env demo_heap = 0"
    by (simp add: demo_heap_def)
  have c1: "use_templates demo_engine demo_heap 3 7 False =
      (fst (use_templates demo_engine demo_heap 3 7 False), h1)"
    by (simp add: h1_def)
  have c2: "use_templates demo_engine h1 3 8 False =
      (fst (use_templates demo_engine h1 3 8 False), h2)"
    by (simp add: h2_def)
  from use_templates_twice_reuses[OF c1 c2] a
  have "fst (use_templates demo_engine demo_heap 3 7 False) = SyncView 0 \<and>
        fst (use_templates demo_engine h1 3 8 False) = SyncView 0 \<and> h2 = h1 \<and>
        services (apps h1 3) (lit ''jinja_environment'') = Some 0 \<and>
        env_loader (envs h1 0) = 7"
    unfolding n by auto
  with a show ?thesis unfolding h1_def h2_def by simp
qed

text \<open>
  Claim C10. The flag only matters at first provisioning. When the registry already
  holds an environment, \<open>use_templates\<close> with \<open>enable_async=True\<close> constructs and
  changes nothing (the heap is returned as it was, so the stored environment keeps its
  own \<open>enable_async\<close>, whatever it is) and returns the asynchronous view over that
  environment; with \<open>enable_async=False\<close> it returns the synchronous view over it.
\<close>

theorem use_templates_flag_on_existing:
  assumes "services (apps h app) (lit ''jinja_environment'') = Some env"
  shows "use_templates eng h app loader True = (AsyncView env, h) \<and>
         use_templates eng h app loader False = (SyncView env, h)"
  by (simp add: use_templates_present[OF assms])

theorem use_templates_flag_on_existing_witness:
  "services (apps (snd (use_templates demo_engine demo_heap 3 7 False)) 3)
     (lit ''jinja_environment'') = Some 0 \<and>
   env_enable_async (envs (snd (use_templates demo_engine demo_heap 3 7 False)) 0) = False \<and>
   use_templates demo_engine (snd (use_templates demo_engine demo_heap 3 7 False)) 3 8 True =
     (AsyncView 0, snd (use_templates demo_engine demo_heap 3 7 False)) \<and>
   use_templates demo_engine (snd (use_templates demo_engine demo_heap 3 7 False)) 3 8 False =
     (SyncView 0, snd (use_templates demo_engine demo_heap 3 7 False))"
proof -
  have a: "services (apps demo_heap 3) (lit ''jinja_environment'') = None"
    by (simp add: demo_heap_def)
  have n: "next_env demo_heap = 0"
    by (simp add: demo_heap_def)
  have s: "services (apps (snd (use_templates demo_engine demo_heap 3 7 False)) 3)
     (lit ''jinja_environment'') = Some 0"
    unfolding use_templates_absent[OF a] n by simp
  have e: "env_enable_async (envs (snd (use_templates demo_engine demo_heap 3 7 False)) 0) = False"
    unfolding use_templates_absent[OF a] n by simp
  from use_templates_flag_on_existing[OF s, of demo_engine 8] s e show ?thesis by blast
qed

section \<open>The views\<close>

lemma render_template_eq:
  "render_template eng t args kwargs =
     (case given_twice [lit ''template''] kwargs of
        Some k \<Rightarrow> Inl (MultipleValues (lit ''render_template'') k)
      | None \<Rightarrow> render eng t args kwargs)"
  by (simp add: render_template_def bind_arguments_def split: option.splits)

lemma render_template_async_eq:
  "render_template_async eng t args kwargs =
     (case given_twice [lit ''template''] kwargs of
        Some k \<Rightarrow> Inl (MultipleValues (lit ''render_template_async'') k)
      | None \<Rightarrow> Inr (render_async eng t args kwargs))"
  by (simp add: render_template_async_def bind_arguments_def await_Return split: option.splits)

text \<open>The two synchronous views and the two asynchronous ones, written out.\<close>

lemma view_eq:
  "view eng h env name args kwargs =
     (case given_twice [lit ''jinja_environment'', lit ''name''] kwargs of
        Some k \<Rightarrow> Inl (MultipleValues (lit ''view'') k)
      | None \<Rightarrow>
          (case get_template eng (envs h env) (template_name name) of
             Inl e \<Rightarrow> Inl e
           | Inr t \<Rightarrow>
               (case given_twice [lit ''template''] kwargs of
                  Some k \<Rightarrow> Inl (MultipleValues (lit ''render_template'') k)
                | None \<Rightarrow>
                    (case render eng t args kwargs of
                       Inl e \<Rightarrow> Inl e
                     | Inr html \<Rightarrow> get_response html))),
      h)"
  by (simp add: view_def render_template_eq bind_arguments_def split: option.splits sum.splits)

lemma sync_view_eq:
  "sync_view eng h env name args kwargs =
     (case given_twice [lit ''name''] kwargs of
        Some k \<Rightarrow> Inl (MultipleValues (lit ''sync_view'') k)
      | None \<Rightarrow>
          (case get_template eng (envs h env) (template_name name) of
             Inl e \<Rightarrow> Inl e
           | Inr t \<Rightarrow>
               (case given_twice [lit ''template''] kwargs of
                  Some k \<Rightarrow> Inl (MultipleValues (lit ''render_template'') k)
                | None \<Rightarrow>
                    (case render eng t args kwargs of
                       Inl e \<Rightarrow> Inl e
                     | Inr html \<Rightarrow> get_response html))),
      h)"
  by (simp add: sync_view_def render_template_eq bind_arguments_def
      split: option.splits sum.splits)

lemma view_async_eq:
  "view_async eng h env name args kwargs =
     (case given_twice [lit ''jinja_environment'', lit ''name''] kwargs of
        Some k \<Rightarrow> Inl (MultipleValues (lit ''view_async'') k)
      | None \<Rightarrow>
          Inr (case get_template eng (envs h env) (template_name name) of
                 Inl e \<Rightarrow> Raise e
               | Inr t \<Rightarrow>
                   (case given_twice [lit ''template''] kwargs of
                      Some k \<Rightarrow> Raise (MultipleValues (lit ''render_template_async'') k)
                    | None \<Rightarrow>
                        await (render_async eng t args kwargs)
                          (\<lambda>html. finished (get_response html)))),
      h)"
  by (simp add: view_async_def render_template_async_eq bind_arguments_def
      split: option.splits sum.splits)

lemma async_view_eq:
  "async_view eng h env name args kwargs =
     (case given_twice [lit ''name''] kwargs of
        Some k \<Rightarrow> Inl (MultipleValues (lit ''async_view'') k)
      | None \<Rightarrow>
          Inr (case get_template eng (envs h env) (template_name name) of
                 Inl e \<Rightarrow> Raise e
               | Inr t \<Rightarrow>
                   (case given_twice [lit ''template''] kwargs of
                      Some k \<Rightarrow> Raise (MultipleValues (lit ''render_template_async'') k)
                    | None \<Rightarrow>
                        await (render_async eng t args kwargs)
                          (\<lambda>html. finished (get_response html)))),
      h)"
  by (simp add: async_view_def render_template_async_eq bind_arguments_def
      split: option.splits sum.splits)

lemma views_keep_heap:
  "snd (view eng h env name args kwargs) = h"
  "snd (view_async eng h env name args kwargs) = h"
  "snd (sync_view eng h env name args kwargs) = h"
  "snd (async_view eng h env name args kwargs) = h"
  by (simp_all add: view_def view_async_def sync_view_def async_view_def)

lemma call_view_keeps_heap: "snd (call_view eng h v name args kwargs) = h"
proof (cases v)
  case (SyncView env)
  have "snd (sync_view eng h env name args kwargs) = h" by (rule views_keep_heap)
  then show ?thesis using SyncView
    by (cases "sync_view eng h env name args kwargs") (auto split: sum.splits)
next
  case (AsyncView env)
  have "snd (async_view eng h env name args kwargs) = h" by (rule views_keep_heap)
  then show ?thesis using AsyncView
    by (cases "async_view eng h env name args kwargs") (auto split: sum.splits)
qed

lemma use_templates_returns:
  "\<exists>env. fst (use_templates eng h app loader enable_async) =
           (if enable_async then AsyncView env else SyncView env) \<and>
         services (apps (snd (use_templates eng h app loader enable_async)) app)
           (lit ''jinja_environment'') = Some env"
proof (cases "services (apps h app) (lit ''jinja_environment'')")
  case None
  show ?thesis unfolding use_templates_absent[OF None] by (auto simp: lit_keys_distinct)
next
  case (Some env)
  show ?thesis unfolding use_templates_present[OF Some] using Some by auto
qed

text \<open>A keyword \<open>template\<close> stops every view at its call of the rendering helper.\<close>

lemma view_template_keyword:
  "fst (view demo_engine demo_heap 0 (lit ''index'') [] [(lit ''template'', 5)]) =
     Inl (MultipleValues (lit ''render_template'') (lit ''template'')) \<and>
   fst (view demo_engine demo_heap 0 (lit ''index'') [] [(lit ''name'', 5)]) =
     Inl (MultipleValues (lit ''view'') (lit ''name''))"
  by (simp add: view_eq given_twice_def demo_engine_def demo_heap_def Environment_def
      template_name_def endswith_def) (simp add: lit_def)

text \<open>
  Claim C8. For every environment and all arguments, \<open>view\<close> with the name \<open>index\<close>
  resolves the template that \<open>view\<close> with the name \<open>index.html\<close> resolves. Both names
  are normalized to \<open>index.html\<close>; under either name the one template \<open>view\<close> asks the
  environment for is \<open>index.html\<close>, the outcome of \<open>view\<close> is the outcome of that
  lookup (its exception, or the response rendered from the template it returned), and
  the two calls of \<open>view\<close> have the same result.
\<close>

theorem view_index_same_template:
  "template_name (lit ''index'') = lit ''index.html'' \<and>
   template_name (lit ''index.html'') = lit ''index.html'' \<and>
   view eng h env (lit ''index'') args kwargs =
     (case given_twice [lit ''jinja_environment'', lit ''name''] kwargs of
        Some k \<Rightarrow> Inl (MultipleValues (lit ''view'') k)
      | None \<Rightarrow>
          (case get_template eng (envs h env) (lit ''index.html'') of
             Inl e \<Rightarrow> Inl e
           | Inr t \<Rightarrow>
               (case given_twice [lit ''template''] kwargs of
                  Some k \<Rightarrow> Inl (MultipleValues (lit ''render_template'') k)
                | None \<Rightarrow>
                    (case render eng t args kwargs of
                       Inl e \<Rightarrow> Inl e
                     | Inr html \<Rightarrow> get_response html))),
      h) \<and>
   view eng h env (lit ''index.html'') args kwargs = view eng h env (lit ''index'') args kwargs"
proof -
  have a: "template_name (lit ''index'') = lit ''index.html''"
    by (simp add: template_name_def endswith_def lit_def)
  have b: "template_name (lit ''index.html'') = lit ''index.html''"
    by (simp add: template_name_def endswith_def lit_def)
  show ?thesis unfolding view_eq a b by simp
qed

text \<open>
  Claim C5. \<open>use_templates\<close> returns the suspend-capable view when called with
  \<open>enable_async=True\<close> and the plain view when called with \<open>enable_async=False\<close>, each
  bound to the environment the registry holds afterwards. A call of the suspend-capable
  view gives a coroutine that resolves the normalized name, awaits the engine's
  \<open>render_async\<close> and then wraps the text with \<open>get_response\<close>; a call of the plain view
  resolves the normalized name, renders with \<open>render\<close> and wraps. The only other outcomes
  are the \<open>TypeError\<close> of a call that gives \<open>name\<close> twice, and the \<open>TypeError\<close> of a
  keyword \<open>template\<close> at the rendering helper.
\<close>

theorem use_templates_view_kind:
  "(\<exists>env. fst (use_templates eng h app loader True) = AsyncView env \<and>
      services (apps (snd (use_templates eng h app loader True)) app)
        (lit ''jinja_environment'') = Some env \<and>
      (\<forall>h' name args kwargs.
         call_view eng h' (AsyncView env) name args kwargs =
           (case given_twice [lit ''name''] kwargs of
              Some k \<Rightarrow> Raised (MultipleValues (lit ''async_view'') k)
            | None \<Rightarrow>
                Coroutine
                  (case get_template eng (envs h' env) (template_name name) of
                     Inl e \<Rightarrow> Raise e
                   | Inr t \<Rightarrow>
                       (case given_twice [lit ''template''] kwargs of
                          Some k \<Rightarrow> Raise (MultipleValues (lit ''render_template_async'') k)
                        | None \<Rightarrow>
                            await (render_async eng t args kwargs)
                              (\<lambda>html. finished (get_response html)))),
            h'))) \<and>
   (\<exists>env. fst (use_templates eng h app loader False) = SyncView env \<and>
      services (apps (snd (use_templates eng h app loader False)) app)
        (lit ''jinja_environment'') = Some env \<and>
      (\<forall>h' name args kwargs.
         call_view eng h' (SyncView env) name args kwargs =
           (case given_twice [lit ''name''] kwargs of
              Some k \<Rightarrow> Raised (MultipleValues (lit ''sync_view'') k)
            | None \<Rightarrow>
                (case get_template eng (envs h' env) (template_name name) of
                   Inl e \<Rightarrow> Raised e
                 | Inr t \<Rightarrow>
                     (case given_twice [lit ''template''] kwargs of
                        Some k \<Rightarrow> Raised (MultipleValues (lit ''render_template'') k)
                      | None \<Rightarrow>
                          (case render eng t args kwargs of
                             Inl e \<Rightarrow> Raised e
                           | Inr html \<Rightarrow>
                               (case get_response html of
                                  Inl e \<Rightarrow> Raised e
                                | Inr r \<Rightarrow> Returned r)))),
            h')))"
proof (intro conjI)
  from use_templates_returns[of eng h app loader True]
  obtain env where e: "fst (use_templates eng h app loader True) = AsyncView env"
    "services (apps (snd (use_templates eng h app loader True)) app)
        (lit ''jinja_environment'') = Some env"
    by auto
  have "call_view eng h' (AsyncView env) name args kwargs =
           (case given_twice [lit ''name''] kwargs of
              Some k \<Rightarrow> Raised (MultipleValues (lit ''async_view'') k)
            | None \<Rightarrow>
                Coroutine
                  (case get_template eng (envs h' env) (template_name name) of
                     Inl e \<Rightarrow> Raise e
                   | Inr t \<Rightarrow>
                       (case given_twice [lit ''template''] kwargs of
                          Some k \<Rightarrow> Raise (MultipleValues (lit ''render_template_async'') k)
                        | None \<Rightarrow>
                            await (render_async eng t args kwargs)
                              (\<lambda>html. finished (get_response html)))),
            h')" for h' name args and kwargs :: "(str \<times> 'c) list"
    by (simp add: async_view_eq split: option.splits)
  with e show "\<exists>env. fst (use_templates eng h app loader True) = AsyncView env \<and>
      services (apps (snd (use_templates eng h app loader True)) app)
        (lit ''jinja_environment'') = Some env \<and>
      (\<forall>h' name args kwargs.
         call_view eng h' (AsyncView env) name args kwargs =
           (case given_twice [lit ''name''] kwargs of
              Some k \<Rightarrow> Raised (MultipleValues (lit ''async_view'') k)
            | None \<Rightarrow>
                Coroutine
                  (case get_template eng (envs h' env) (template_name name) of
                     Inl e \<Rightarrow> Raise e
                   | Inr t \<Rightarrow>
                       (case given_twice [lit ''template''] kwargs of
                          Some k \<Rightarrow> Raise (MultipleValues (lit ''render_template_async'') k)
                        | None \<Rightarrow>
                            await (render_async eng t args kwargs)
                              (\<lambda>html. finished (get_response html)))),
            h'))"
    by blast
next
  from use_templates_returns[of eng h app loader False]
  obtain env where e: "fst (use_templates eng h app loader False) = SyncView env"
    "services (apps (snd (use_templates eng h app loader False)) app)
        (lit ''jinja_environment'') = Some env"
    by auto
  have "call_view eng h' (SyncView env) name args kwargs =
           (case given_twice [lit ''name''] kwargs of
              Some k \<Rightarrow> Raised (MultipleValues (lit ''sync_view'') k)
            | None \<Rightarrow>
                (case get_template eng (envs h' env) (template_name name) of
                   Inl e \<Rightarrow> Raised e
                 | Inr t \<Rightarrow>
                     (case given_twice [lit ''template''] kwargs of
                        Some k \<Rightarrow> Raised (MultipleValues (lit ''render_template'') k)
                      | None \<Rightarrow>
                          (case render eng t args kwargs of
                             Inl e \<Rightarrow> Raised e
                           | Inr html \<Rightarrow>
                               (case get_response html of
                                  Inl e \<Rightarrow> Raised e
                                | Inr r \<Rightarrow> Returned r)))),
            h')" for h' name args and kwargs :: "(str \<times> 'c) list"
    by (simp add: sync_view_eq split: option.splits sum.splits)
  with e show "\<exists>env. fst (use_templates eng h app loader False) = SyncView env \<and>
      services (apps (snd (use_templates eng h app loader False)) app)
        (lit ''jinja_environment'') = Some env \<and>
      (\<forall>h' name args kwargs.
         call_view eng h' (SyncView env) name args kwargs =
           (case given_twice [lit ''name''] kwargs of
              Some k \<Rightarrow> Raised (MultipleValues (lit ''sync_view'') k)
            | None \<Rightarrow>
                (case get_template eng (envs h' env) (template_name name) of
                   Inl e \<Rightarrow> Raised e
                 | Inr t \<Rightarrow>
                     (case given_twice [lit ''template''] kwargs of
                        Some k \<Rightarrow> Raised (MultipleValues (lit ''render_template'') k)
                      | None \<Rightarrow>
                          (case render eng t args kwargs of
                             Inl e \<Rightarrow> Raised e
                           | Inr html \<Rightarrow>
                               (case get_response html of
                                  Inl e \<Rightarrow> Raised e
                                | Inr r \<Rightarrow> Returned r)))),
            h'))"
    by blast
qed

text \<open>
  Claim C6. \<open>view_async\<close> renders asynchronously: its result comes from the engine's
  \<open>render_async\<close> (nothing is assumed of \<open>render\<close>), and its coroutine suspends exactly
  where \<open>render_async\<close> suspends; the docstring of line 63 says the opposite. With
  \<open>enable_async=True\<close>, \<open>use_templates\<close> returns the suspend-capable view. When the
  call reaches the asynchronous rendering (no keyword is named \<open>jinja_environment\<close>,
  \<open>name\<close> or \<open>template\<close>, and the template is found) and the rendering resolves to a
  text, \<open>view_async\<close> and the suspend-capable view give a coroutine that, after
  completion, yields \<open>get_response\<close> of that text, which is what the synchronous view
  returns when the synchronous rendering gives the same text. For \<open><p>async</p>\<close> the
  response has status 200, the header \<open>Cache-Control: no-cache\<close>, and the UTF-8 bytes of
  \<open><p>async</p>\<close> as body.
\<close>

theorem view_async_response:
  assumes "given_twice [lit ''jinja_environment'', lit ''name'', lit ''template''] kwargs = None"
      and "get_template eng (envs h env) (template_name name) = Inr t"
      and "fst (run_until_complete h (render_async eng t args kwargs)) = Inr html"
  shows "(\<exists>env'. fst (use_templates eng h0 app loader True) = AsyncView env') \<and>
         (\<exists>c. view_async eng h env name args kwargs = (Inr c, h) \<and>
              call_view eng h (AsyncView env) name args kwargs = (Coroutine c, h) \<and>
              c = await (render_async eng t args kwargs) (\<lambda>html. finished (get_response html)) \<and>
              suspensions c = suspensions (render_async eng t args kwargs) \<and>
              run_until_complete h c = (get_response html, h) \<and>
              (render eng t args kwargs = Inr html \<longrightarrow>
                 view eng h env name args kwargs = run_until_complete h c) \<and>
              (html = lit ''<p>async</p>'' \<longrightarrow>
                 run_until_complete h c =
                   (Inr \<lparr>status = 200, headers = [(blit ''Cache-Control'', blit ''no-cache'')],
                         content = Some \<lparr>content_type = blit ''text/html; charset=utf-8'',
                                          body = [0x3C, 0x70, 0x3E, 0x61, 0x73, 0x79, 0x6E, 0x63,
                                                  0x3C, 0x2F, 0x70, 0x3E]\<rparr>\<rparr>,
                    h)))"
proof -
  define c where "c = await (render_async eng t args kwargs) (\<lambda>html. finished (get_response html))"
  from assms(1) have g: "given_twice [lit ''jinja_environment'', lit ''name''] kwargs = None"
      "given_twice [lit ''name''] kwargs = None" "given_twice [lit ''template''] kwargs = None"
    by (auto elim: given_twice_mono)
  have k: "\<exists>env'. fst (use_templates eng h0 app loader True) = AsyncView env'"
    using use_templates_returns[of eng h0 app loader True] by auto
  have v: "view_async eng h env name args kwargs = (Inr c, h)"
    by (simp add: view_async_eq g assms(2) c_def)
  have a: "async_view eng h env name args kwargs = (Inr c, h)"
    by (simp add: async_view_eq g assms(2) c_def)
  have s: "suspensions c = suspensions (render_async eng t args kwargs)"
    by (simp add: c_def suspensions_await_finished)
  have r: "run_until_complete h c = (get_response html, h)"
    by (simp add: c_def run_await_finished assms(3))
  have y: "view eng h env name args kwargs = run_until_complete h c"
    if "render eng t args kwargs = Inr html"
    by (simp add: r view_eq g assms(2) that)
  have ok: "\<forall>c\<in>set (lit ''<p>async</p>''). \<not> is_surrogate c"
    by (simp add: lit_def is_surrogate_def)
  have enc: "concat (map utf8_char (lit ''<p>async</p>'')) =
      [0x3C, 0x70, 0x3E, 0x61, 0x73, 0x79, 0x6E, 0x63, 0x3C, 0x2F, 0x70, 0x3E]"
    by (simp add: lit_def utf8_char_def)
  have x: "run_until_complete h c =
       (Inr \<lparr>status = 200, headers = [(blit ''Cache-Control'', blit ''no-cache'')],
             content = Some \<lparr>content_type = blit ''text/html; charset=utf-8'',
                              body = [0x3C, 0x70, 0x3E, 0x61, 0x73, 0x79, 0x6E, 0x63,
                                      0x3C, 0x2F, 0x70, 0x3E]\<rparr>\<rparr>,
        h)"
    if "html = lit ''<p>async</p>''"
    by (simp add: r that get_response_ok[OF ok] enc)
  from k v a s r y x c_def show ?thesis by auto
qed

theorem view_async_response_witness:
  "fst (use_templates demo_engine demo_heap 3 7 True) = AsyncView 0 \<and>
   env_enable_async (envs (snd (use_templates demo_engine demo_heap 3 7 True)) 0) = True \<and>
   given_twice [lit ''jinja_environment'', lit ''name'', lit ''template'']
     [(lit ''title'', 5::nat)] = None \<and>
   get_template demo_engine (envs (snd (use_templates demo_engine demo_heap 3 7 True)) 0)
     (template_name (lit ''index'')) = Inr 1 \<and>
   render_async demo_engine 1 [] [(lit ''title'', 5)] = Suspend (Return (lit ''<p>async</p>'')) \<and>
   (\<exists>c. call_view demo_engine (snd (use_templates demo_engine demo_heap 3 7 True))
          (fst (use_templates demo_engine demo_heap 3 7 True))
          (lit ''index'') [] [(lit ''title'', 5)] =
            (Coroutine c, snd (use_templates demo_engine demo_heap 3 7 True)) \<and>
        suspensions c = 1 \<and>
        run_until_complete (snd (use_templates demo_engine demo_heap 3 7 True)) c =
          (Inr \<lparr>status = 200, headers = [(blit ''Cache-Control'', blit ''no-cache'')],
                content = Some \<lparr>content_type = blit ''text/html; charset=utf-8'',
                                 body = [0x3C, 0x70, 0x3E, 0x61, 0x73, 0x79, 0x6E, 0x63,
                                         0x3C, 0x2F, 0x70, 0x3E]\<rparr>\<rparr>,
           snd (use_templates demo_engine demo_heap 3 7 True)))"
proof -
  define h where "h = snd (use_templates demo_engine demo_heap 3 7 True)"
  have a: "services (apps demo_heap 3) (lit ''jinja_environment'') = None"
    by (simp add: demo_heap_def)
  have n: "next_env demo_heap = 0"
    by (simp add: demo_heap_def)
  have v: "fst (use_templates demo_engine demo_heap 3 7 True) = AsyncView 0"
    unfolding use_templates_absent[OF a] n by simp
  have f: "env_enable_async (envs h 0) = True"
    unfolding h_def use_templates_absent[OF a] n by simp
  have b: "given_twice [lit ''jinja_environment'', lit ''name'', lit ''template'']
      [(lit ''title'', 5::nat)] = None"
    by (simp add: given_twice_def lit_def)
  have g: "get_template demo_engine (envs h 0) (template_name (lit ''index'')) = Inr 1"
    by (simp add: demo_engine_def f template_name_def endswith_def lit_def)
  have r: "render_async demo_engine 1 [] [(lit ''title'', 5)] =
      Suspend (Return (lit ''<p>async</p>''))"
    by (simp add: demo_engine_def)
  have q: "fst (run_until_complete h (render_async demo_engine 1 [] [(lit ''title'', 5)])) =
      Inr (lit ''<p>async</p>'')"
    unfolding r by simp
  from view_async_response[OF b g q, of demo_heap 3 7]
  obtain c where c: "call_view demo_engine h (AsyncView 0) (lit ''index'') [] [(lit ''title'', 5)] =
        (Coroutine c, h)"
      "suspensions c = suspensions (render_async demo_engine 1 [] [(lit ''title'', 5::nat)])"
      "run_until_complete h c =
         (Inr \<lparr>status = 200, headers = [(blit ''Cache-Control'', blit ''no-cache'')],
               content = Some \<lparr>content_type = blit ''text/html; charset=utf-8'',
                                body = [0x3C, 0x70, 0x3E, 0x61, 0x73, 0x79, 0x6E, 0x63,
                                        0x3C, 0x2F, 0x70, 0x3E]\<rparr>\<rparr>,
          h)"
    by blast
  from c(2) have "suspensions c = 1" unfolding r by simp
  with v f b g r c show ?thesis unfolding h_def by auto
qed

text \<open>
  Claim C7. In every view entry point (\<open>view\<close>, \<open>view_async\<close>, and the two functions
  \<open>use_templates\<close> returns) an exception the engine raises reaches the caller as it is:
  one raised by name resolution, one raised by \<open>render\<close> in the synchronous views, and
  one raised by \<open>render_async\<close> in the asynchronous views, however often it suspended
  before. Nothing is caught, retried or wrapped. "The engine raises" says that the call
  reaches the engine: the view is not called with one of its own parameters as a keyword
  and, for rendering, not with a keyword \<open>template\<close>. This holds for every environment
  address, so for whichever one a view returned by \<open>use_templates\<close> is bound to. Whatever
  the outcome, a call of a view and the run of its coroutine leave the heap, and with it
  the service registry of every application, as they found it.
\<close>

theorem view_exceptions_propagate:
  "(given_twice [lit ''jinja_environment'', lit ''name''] kwargs = None \<and>
    get_template eng (envs h env) (template_name name) = Inl e \<longrightarrow>
      view eng h env name args kwargs = (Inl e, h) \<and>
      (\<exists>c. view_async eng h env name args kwargs = (Inr c, h) \<and>
           run_until_complete h c = (Inl e, h))) \<and>
   (given_twice [lit ''name''] kwargs = None \<and>
    get_template eng (envs h env) (template_name name) = Inl e \<longrightarrow>
      call_view eng h (SyncView env) name args kwargs = (Raised e, h) \<and>
      (\<exists>c. call_view eng h (AsyncView env) name args kwargs = (Coroutine c, h) \<and>
           run_until_complete h c = (Inl e, h))) \<and>
   (given_twice [lit ''jinja_environment'', lit ''name'', lit ''template''] kwargs = None \<and>
    get_template eng (envs h env) (template_name name) = Inr t \<and>
    render eng t args kwargs = Inl e \<longrightarrow>
      view eng h env name args kwargs = (Inl e, h)) \<and>
   (given_twice [lit ''name'', lit ''template''] kwargs = None \<and>
    get_template eng (envs h env) (template_name name) = Inr t \<and>
    render eng t args kwargs = Inl e \<longrightarrow>
      call_view eng h (SyncView env) name args kwargs = (Raised e, h)) \<and>
   (given_twice [lit ''jinja_environment'', lit ''name'', lit ''template''] kwargs = None \<and>
    get_template eng (envs h env) (template_name name) = Inr t \<and>
    fst (run_until_complete h (render_async eng t args kwargs)) = Inl e \<longrightarrow>
      (\<exists>c. view_async eng h env name args kwargs = (Inr c, h) \<and>
           run_until_complete h c = (Inl e, h))) \<and>
   (given_twice [lit ''name'', lit ''template''] kwargs = None \<and>
    get_template eng (envs h env) (template_name name) = Inr t \<and>
    fst (run_until_complete h (render_async eng t args kwargs)) = Inl e \<longrightarrow>
      (\<exists>c. call_view eng h (AsyncView env) name args kwargs = (Coroutine c, h) \<and>
           run_until_complete h c = (Inl e, h))) \<and>
   snd (view eng h env name args kwargs) = h \<and>
   snd (view_async eng h env name args kwargs) = h \<and>
   snd (call_view eng h v name args kwargs) = h \<and>
   snd (run_until_complete h (c :: py_response coro)) = h \<and>
   services (apps (snd (view eng h env name args kwargs)) a) = services (apps h a) \<and>
   services (apps (snd (view_async eng h env name args kwargs)) a) = services (apps h a) \<and>
   services (apps (snd (call_view eng h v name args kwargs)) a) = services (apps h a) \<and>
   services (apps (snd (run_until_complete h c)) a) = services (apps h a)"
proof -
  have m: "given_twice [lit ''jinja_environment'', lit ''name''] kwargs = None"
      "given_twice [lit ''template''] kwargs = None"
    if "given_twice [lit ''jinja_environment'', lit ''name'', lit ''template''] kwargs = None"
    using that by (auto elim: given_twice_mono)
  have n: "given_twice [lit ''name''] kwargs = None"
      "given_twice [lit ''template''] kwargs = None"
    if "given_twice [lit ''name'', lit ''template''] kwargs = None"
    using that by (auto elim: given_twice_mono)
  have 1: "view eng h env name args kwargs = (Inl e, h) \<and>
      (\<exists>c. view_async eng h env name args kwargs = (Inr c, h) \<and>
           run_until_complete h c = (Inl e, h))"
    if "given_twice [lit ''jinja_environment'', lit ''name''] kwargs = None"
      and "get_template eng (envs h env) (template_name name) = Inl e"
    using that by (simp add: view_eq view_async_eq)
  have 2: "call_view eng h (SyncView env) name args kwargs = (Raised e, h) \<and>
      (\<exists>c. call_view eng h (AsyncView env) name args kwargs = (Coroutine c, h) \<and>
           run_until_complete h c = (Inl e, h))"
    if "given_twice [lit ''name''] kwargs = None"
      and "get_template eng (envs h env) (template_name name) = Inl e"
    using that by (simp add: sync_view_eq async_view_eq)
  have 3: "view eng h env name args kwargs = (Inl e, h)"
    if "given_twice [lit ''jinja_environment'', lit ''name'', lit ''template''] kwargs = None"
      and "get_template eng (envs h env) (template_name name) = Inr t"
      and "render eng t args kwargs = Inl e"
    using that m[OF that(1)] by (simp add: view_eq)
  have 4: "call_view eng h (SyncView env) name args kwargs = (Raised e, h)"
    if "given_twice [lit ''name'', lit ''template''] kwargs = None"
      and "get_template eng (envs h env) (template_name name) = Inr t"
      and "render eng t args kwargs = Inl e"
    using that n[OF that(1)] by (simp add: sync_view_eq)
  have 5: "\<exists>c. view_async eng h env name args kwargs = (Inr c, h) \<and>
           run_until_complete h c = (Inl e, h)"
    if "given_twice [lit ''jinja_environment'', lit ''name'', lit ''template''] kwargs = None"
      and "get_template eng (envs h env) (template_name name) = Inr t"
      and "fst (run_until_complete h (render_async eng t args kwargs)) = Inl e"
    using that m[OF that(1)] by (simp add: view_async_eq run_await_finished)
  have 6: "\<exists>c. call_view eng h (AsyncView env) name args kwargs = (Coroutine c, h) \<and>
           run_until_complete h c = (Inl e, h)"
    if "given_twice [lit ''name'', lit ''template''] kwargs = None"
      and "get_template eng (envs h env) (template_name name) = Inr t"
      and "fst (run_until_complete h (render_async eng t args kwargs)) = Inl e"
    using that n[OF that(1)] by (simp add: async_view_eq run_await_finished)
  have 7: "snd (view eng h env name args kwargs) = h"
      "snd (view_async eng h env name args kwargs) = h"
      "snd (call_view eng h v name args kwargs) = h"
      "snd (run_until_complete h c) = h"
    by (simp_all add: views_keep_heap call_view_keeps_heap run_heap)
  from 1 2 3 4 5 6 show ?thesis unfolding 7 by blast
qed

theorem view_exceptions_propagate_witness:
  "given_twice [lit ''jinja_environment'', lit ''name'', lit ''template'']
     [(lit ''title'', 5::nat)] = None \<and>
   get_template demo_engine (envs demo_heap 0) (template_name (lit ''missing'')) =
     Inl (TemplateNotFound (lit ''missing.html'')) \<and>
   view demo_engine demo_heap 0 (lit ''missing'') [] [(lit ''title'', 5)] =
     (Inl (TemplateNotFound (lit ''missing.html'')), demo_heap) \<and>
   call_view demo_engine demo_heap (SyncView 0) (lit ''missing'') [] [(lit ''title'', 5)] =
     (Raised (TemplateNotFound (lit ''missing.html'')), demo_heap) \<and>
   get_template demo_engine (envs demo_heap 0) (template_name (lit ''index'')) = Inr 0 \<and>
   render demo_engine 0 [1] [(lit ''title'', 5)] = Inl (TypeError (lit ''render'')) \<and>
   view demo_engine demo_heap 0 (lit ''index'') [1] [(lit ''title'', 5)] =
     (Inl (TypeError (lit ''render'')), demo_heap) \<and>
   call_view demo_engine demo_heap (SyncView 0) (lit ''index'') [1] [(lit ''title'', 5)] =
     (Raised (TypeError (lit ''render'')), demo_heap) \<and>
   fst (run_until_complete demo_heap (render_async demo_engine 0 [1] [(lit ''title'', 5)])) =
     Inl (RuntimeError (lit ''async mode not enabled'')) \<and>
   (\<exists>c. view_async demo_engine demo_heap 0 (lit ''index'') [1] [(lit ''title'', 5)] =
          (Inr c, demo_heap) \<and>
        run_until_complete demo_heap c =
          (Inl (RuntimeError (lit ''async mode not enabled'')), demo_heap)) \<and>
   (\<exists>c. call_view demo_engine demo_heap (AsyncView 0) (lit ''index'') [1] [(lit ''title'', 5)] =
          (Coroutine c, demo_heap) \<and>
        run_until_complete demo_heap c =
          (Inl (RuntimeError (lit ''async mode not enabled'')), demo_heap))"
proof -
  let ?kw = "[(lit ''title'', 5::nat)]"
  have b3: "given_twice [lit ''jinja_environment'', lit ''name'', lit ''template''] ?kw = None"
    and b2: "given_twice [lit ''jinja_environment'', lit ''name''] ?kw = None"
    and b2': "given_twice [lit ''name'', lit ''template''] ?kw = None"
    and b1: "given_twice [lit ''name''] ?kw = None"
    by (simp_all add: given_twice_def lit_def)
  have m: "get_template demo_engine (envs demo_heap 0) (template_name (lit ''missing'')) =
      Inl (TemplateNotFound (lit ''missing.html''))"
    by (simp add: demo_engine_def template_name_def endswith_def lit_def)
  have g: "get_template demo_engine (envs demo_heap 0) (template_name (lit ''index'')) = Inr 0"
    by (simp add: demo_engine_def demo_heap_def Environment_def template_name_def endswith_def
        lit_def)
  have r: "render demo_engine 0 [1] ?kw = Inl (TypeError (lit ''render''))"
    by (simp add: demo_engine_def)
  have a: "fst (run_until_complete demo_heap (render_async demo_engine 0 [1] ?kw)) =
      Inl (RuntimeError (lit ''async mode not enabled''))"
    by (simp add: demo_engine_def)
  note t1 = view_exceptions_propagate[of ?kw demo_engine demo_heap 0 "lit ''missing''"
      "TemplateNotFound (lit ''missing.html'')" "[]" 0 "SyncView 0" "Raise (RuntimeError [])" 0]
  note t2 = view_exceptions_propagate[of ?kw demo_engine demo_heap 0 "lit ''index''"
      "TypeError (lit ''render'')" "[1]" 0 "SyncView 0" "Raise (RuntimeError [])" 0]
  note t3 = view_exceptions_propagate[of ?kw demo_engine demo_heap 0 "lit ''index''"
      "RuntimeError (lit ''async mode not enabled'')" "[1]" 0 "SyncView 0" "Raise (RuntimeError [])" 0]
  from t1 b2 b1 m have p1:
    "view demo_engine demo_heap 0 (lit ''missing'') [] ?kw =
       (Inl (TemplateNotFound (lit ''missing.html'')), demo_heap)"
    "call_view demo_engine demo_heap (SyncView 0) (lit ''missing'') [] ?kw =
       (Raised (TemplateNotFound (lit ''missing.html'')), demo_heap)"
    by blast+
  from t2 b3 b2' g r have p2:
    "view demo_engine demo_heap 0 (lit ''index'') [1] ?kw =
       (Inl (TypeError (lit ''render'')), demo_heap)"
    "call_view demo_engine demo_heap (SyncView 0) (lit ''index'') [1] ?kw =
       (Raised (TypeError (lit ''render'')), demo_heap)"
    by blast+
  from t3 b3 b2' g a have p3:
    "\<exists>c. view_async demo_engine demo_heap 0 (lit ''index'') [1] ?kw = (Inr c, demo_heap) \<and>
        run_until_complete demo_heap c =
          (Inl (RuntimeError (lit ''async mode not enabled'')), demo_heap)"
    "\<exists>c. call_view demo_engine demo_heap (AsyncView 0) (lit ''index'') [1] ?kw =
          (Coroutine c, demo_heap) \<and>
        run_until_complete demo_heap c =
          (Inl (RuntimeError (lit ''async mode not enabled'')), demo_heap)"
    by blast+
  from b3 m g r a p1 p2 p3 show ?thesis by blast
qed

end
